theory Spec2Isabelle
  imports Main
begin

text \<open>
  A shallow embedding of parts of the backend of an Interledger payment engine:
  the incoming-payment and wallet-address models with their credit hooks, the account
  middleware of the packet pipeline, the receiver resolver with its grant cache, and, for
  the quote and outgoing-payment services whose code is not among the sources, models
  written from the specification next to what their tests expect. Database tables are
  maps from ids to rows, an \<open>async\<close> function that reads or writes a table takes it and
  returns it, the clock is an argument in milliseconds, and what a function throws is a
  value of its result.
\<close>

section \<open>Incoming payments (open\_payments/payment/incoming/model.ts)\<close>

text \<open>
  The enum \<open>IncomingPaymentState\<close> and the persisted fields of the class
  \<open>IncomingPayment\<close>. Dates are milliseconds since the epoch. A field that can be
  \<open>null\<close> or \<open>undefined\<close> is an \<open>option\<close>. Field names carry the prefix \<open>ip_\<close>
  because several tables of the repository share the names \<open>id\<close> and \<open>state\<close>.
\<close>

datatype IncomingPaymentState = Pending | Processing | Completed | Expired

record IncomingPayment =
  ip_id :: string
  ip_walletAddressId :: string
  ip_state :: IncomingPaymentState
  ip_expiresAt :: int
  ip_connectionId :: "string option"
  ip_processAt :: "int option"
  ip_incomingAmountValue :: "int option"
  ip_receivedAmountValue :: "int option"

text \<open>
  A patch object of an update query: only the fields that are present are written.
  \<open>connectionId\<close> and \<open>processAt\<close> can be patched to \<open>null\<close>, hence the nested option.
\<close>

record IncomingPaymentPatch =
  pt_state :: "IncomingPaymentState option"
  pt_processAt :: "int option option"
  pt_connectionId :: "string option option"
  pt_expiresAt :: "int option"
  pt_incomingAmountValue :: "int option option"

type_synonym incomingPayments = "string \<rightharpoonup> IncomingPayment"

text \<open>The getter \<open>incomingAmount\<close>: a bigint of \<open>0n\<close> is falsy, as is \<open>null\<close>.\<close>

definition incomingAmount :: "IncomingPayment \<Rightarrow> int option" where
  "incomingAmount p =
     (case ip_incomingAmountValue p of
        None \<Rightarrow> None
      | Some v \<Rightarrow> if v = 0 then None else Some v)"

text \<open>
  \<open>$beforeInsert\<close>: \<open>this.connectionId = this.connectionId || uuid()\<close>. The fresh uuid
  is a parameter; the empty string is falsy.
\<close>

definition IncomingPayment_beforeInsert :: "string \<Rightarrow> IncomingPayment \<Rightarrow> IncomingPayment" where
  "IncomingPayment_beforeInsert uuid p =
     p\<lparr>ip_connectionId :=
         (case ip_connectionId p of
            None \<Rightarrow> Some uuid
          | Some c \<Rightarrow> if c = [] then Some uuid else Some c)\<rparr>"

text \<open>
  \<open>$beforeUpdate\<close> runs on the patch object: when the patch carries the state
  Completed or Expired it also patches \<open>connectionId\<close> to \<open>null\<close>.
\<close>

definition IncomingPayment_beforeUpdate :: "IncomingPaymentPatch \<Rightarrow> IncomingPaymentPatch" where
  "IncomingPayment_beforeUpdate pt =
     (if pt_state pt = Some Completed \<or> pt_state pt = Some Expired
      then pt\<lparr>pt_connectionId := Some None\<rparr>
      else pt)"

definition applyPatch :: "IncomingPayment \<Rightarrow> IncomingPaymentPatch \<Rightarrow> IncomingPayment" where
  "applyPatch p pt =
     p\<lparr>ip_state := (case pt_state pt of None \<Rightarrow> ip_state p | Some s \<Rightarrow> s),
        ip_processAt := (case pt_processAt pt of None \<Rightarrow> ip_processAt p | Some t \<Rightarrow> t),
        ip_connectionId :=
          (case pt_connectionId pt of None \<Rightarrow> ip_connectionId p | Some c \<Rightarrow> c),
        ip_expiresAt := (case pt_expiresAt pt of None \<Rightarrow> ip_expiresAt p | Some t \<Rightarrow> t),
        ip_incomingAmountValue :=
          (case pt_incomingAmountValue pt of
             None \<Rightarrow> ip_incomingAmountValue p | Some v \<Rightarrow> v)\<rparr>"

text \<open>
  \<open>IncomingPayment.query().patchAndFetchById(id, patch).whereNotIn('state', excluded)\<close>:
  the row with that id is updated unless it is missing or its state is excluded; the
  query yields the updated row, or \<open>undefined\<close> when no row was updated.
\<close>

definition IncomingPayment_patchAndFetchById ::
  "incomingPayments \<Rightarrow> string \<Rightarrow> IncomingPaymentPatch \<Rightarrow> IncomingPaymentState list
     \<Rightarrow> incomingPayments \<times> IncomingPayment option" where
  "IncomingPayment_patchAndFetchById db i pt excluded =
     (case db i of
        None \<Rightarrow> (db, None)
      | Some row \<Rightarrow>
          if ip_state row \<in> set excluded then (db, None)
          else (let row' = applyPatch row (IncomingPayment_beforeUpdate pt)
                in (db(i \<mapsto> row'), Some row')))"

definition emptyPatch :: IncomingPaymentPatch where
  "emptyPatch =
     \<lparr>pt_state = None, pt_processAt = None, pt_connectionId = None,
      pt_expiresAt = None, pt_incomingAmountValue = None\<rparr>"

text \<open>
  \<open>onCredit({totalReceived})\<close>, called on the in-memory object \<open>this\<close> with the table
  \<open>db\<close> and the clock \<open>now\<close>. It returns the new table and the payment it resolves to.
\<close>

definition IncomingPayment_onCredit ::
  "incomingPayments \<Rightarrow> int \<Rightarrow> IncomingPayment \<Rightarrow> int
     \<Rightarrow> incomingPayments \<times> IncomingPayment" where
  "IncomingPayment_onCredit db now this totalReceived =
     (let (db', incomingPayment) =
        (if (case incomingAmount this of None \<Rightarrow> False | Some v \<Rightarrow> v \<le> totalReceived)
         then IncomingPayment_patchAndFetchById db (ip_id this)
                (emptyPatch\<lparr>pt_state := Some Completed,
                            pt_processAt := Some (Some (now + 30000))\<rparr>)
                [Expired, Completed]
         else IncomingPayment_patchAndFetchById db (ip_id this)
                (emptyPatch\<lparr>pt_state := Some Processing\<rparr>)
                [Expired, Completed])
      in (case incomingPayment of
            Some p \<Rightarrow> (db', p)
          | None \<Rightarrow> (db', this)))"


section \<open>The account middleware of the packet pipeline (connector/core/middleware/account.ts)\<close>

text \<open>
  The wallet address and its asset (open\_payments/wallet\_address/model.ts); a peer is
  known by its id and its static ILP address.
\<close>

record Asset =
  asset_code :: string
  asset_scale :: nat
  asset_withdrawalThreshold :: "int option"

record WalletAddress =
  wa_id :: string
  wa_url :: string
  wa_asset :: Asset
  wa_totalEventsAmount :: int
  wa_processAt :: "int option"
  wa_deactivatedAt :: "int option"

record Peer =
  peer_id :: string
  peer_staticIlpAddress :: string

datatype LiquidityAccountType = ASSET | PEER | INCOMING | OUTGOING | WEB_MONETIZATION

datatype account =
  IncomingPaymentAccount IncomingPayment
| WalletAddressAccount WalletAddress
| PeerAccount Peer

text \<open>
  What the middleware can throw: \<open>ctx.throw(401, 'unauthorized')\<close>, the ILP error
  \<open>UnreachableError\<close> (F02), or an error of the accounting service it rethrows.
\<close>

datatype accounting_error = AccountAlreadyExistsError | AccountingFailure string

datatype ilp_error =
  HttpError nat string
| UnreachableError string
| Rethrown string

text \<open>
  \<open>ctx.services\<close>: the lookups and the accounting service are not part of the
  middleware, so they are parameters. The ledger is any state \<open>'l\<close> that
  \<open>createLiquidityAccount\<close> transforms.
\<close>

record 'l services =
  incomingPayments_get :: "string \<Rightarrow> IncomingPayment option"
  walletAddresses_get :: "string \<Rightarrow> WalletAddress option"
  peers_getByDestinationAddress :: "string \<Rightarrow> Peer option"
  accounting_createLiquidityAccount ::
    "'l \<Rightarrow> string \<Rightarrow> LiquidityAccountType \<Rightarrow> accounting_error + 'l"

record ILPContext =
  ctx_incomingAccount :: "account option"
  ctx_streamDestination :: "string option"
  prepare_amount :: string
  prepare_destination :: string

text \<open>
  The local helper \<open>createLiquidityAccount\<close>: an account that already exists is not
  an error, any other error is rethrown.
\<close>

definition createLiquidityAccount ::
  "'l services \<Rightarrow> 'l \<Rightarrow> string \<Rightarrow> LiquidityAccountType \<Rightarrow> ilp_error + 'l" where
  "createLiquidityAccount svc ledger accountId accountType =
     (case accounting_createLiquidityAccount svc ledger accountId accountType of
        Inr ledger' \<Rightarrow> Inr ledger'
      | Inl AccountAlreadyExistsError \<Rightarrow> Inr ledger
      | Inl (AccountingFailure e) \<Rightarrow> Inl (Rethrown e))"

text \<open>
  The tail of \<open>getAccountByDestinationAddress\<close>: a peer for the destination address,
  else \<open>undefined\<close> (the branch for a local account id holds only a TODO and returns
  nothing).
\<close>

definition getPeerAccount :: "'l services \<Rightarrow> 'l \<Rightarrow> ILPContext \<Rightarrow> ilp_error + 'l \<times> account option" where
  "getPeerAccount svc ledger ctx =
     (case peers_getByDestinationAddress svc (prepare_destination ctx) of
        Some peer \<Rightarrow> Inr (ledger, Some (PeerAccount peer))
      | None \<Rightarrow> Inr (ledger, None))"

definition getAccountByDestinationAddress ::
  "'l services \<Rightarrow> 'l \<Rightarrow> ILPContext \<Rightarrow> ilp_error + 'l \<times> account option" where
  "getAccountByDestinationAddress svc ledger ctx =
     (case ctx_streamDestination ctx of
        None \<Rightarrow> getPeerAccount svc ledger ctx
      | Some sd \<Rightarrow>
          if sd = [] then getPeerAccount svc ledger ctx
          else
            (case incomingPayments_get svc sd of
               Some incomingPayment \<Rightarrow>
                 if prepare_amount ctx \<noteq> ''0'' \<and>
                    ip_state incomingPayment \<in> set [Completed, Expired]
                 then Inl (UnreachableError ''destination account is disabled'')
                 else if ip_state incomingPayment = Pending
                 then (case createLiquidityAccount svc ledger
                              (ip_id incomingPayment) INCOMING of
                         Inl e \<Rightarrow> Inl e
                       | Inr ledger' \<Rightarrow>
                           Inr (ledger', Some (IncomingPaymentAccount incomingPayment)))
                 else Inr (ledger, Some (IncomingPaymentAccount incomingPayment))
             | None \<Rightarrow>
                 (case walletAddresses_get svc sd of
                    Some walletAddress \<Rightarrow>
                      if wa_totalEventsAmount walletAddress = 0
                      then (case createLiquidityAccount svc ledger
                                   (wa_id walletAddress) WEB_MONETIZATION of
                              Inl e \<Rightarrow> Inl e
                            | Inr ledger' \<Rightarrow>
                                Inr (ledger', Some (WalletAddressAccount walletAddress)))
                      else Inr (ledger, Some (WalletAddressAccount walletAddress))
                  | None \<Rightarrow> getPeerAccount svc ledger ctx)))"

text \<open>
  The middleware itself. \<open>Inr\<close> is the case where it sets \<open>ctx.accounts\<close> (incoming,
  outgoing) and calls \<open>next()\<close>.
\<close>

definition account_middleware ::
  "'l services \<Rightarrow> 'l \<Rightarrow> ILPContext \<Rightarrow> ilp_error + 'l \<times> account \<times> account" where
  "account_middleware svc ledger ctx =
     (case ctx_incomingAccount ctx of
        None \<Rightarrow> Inl (HttpError 401 ''unauthorized'')
      | Some incomingAccount \<Rightarrow>
          (case getAccountByDestinationAddress svc ledger ctx of
             Inl e \<Rightarrow> Inl e
           | Inr (ledger', None) \<Rightarrow> Inl (UnreachableError ''unknown destination account'')
           | Inr (ledger', Some outgoingAccount) \<Rightarrow>
               Inr (ledger', incomingAccount, outgoingAccount)))"

subsection \<open>The updates of the incoming-payment table\<close>

text \<open>
  A payment is inserted in state Pending (``The payment has a state of PENDING when it is
  initially created''), with \<open>$beforeInsert\<close> applied. Afterwards the table changes by
  \<open>onCredit\<close>, by an update whose patch sets the state to Completed or Expired
  (completion, expiry), and by updates that patch neither the state nor the connection id.
\<close>

inductive reachable :: "incomingPayments \<Rightarrow> bool" where
  reach_empty: "reachable Map.empty"
| reach_insert:
    "reachable db \<Longrightarrow> db (ip_id p) = None \<Longrightarrow> ip_state p = Pending
       \<Longrightarrow> reachable (db(ip_id p \<mapsto> IncomingPayment_beforeInsert uuid p))"
| reach_credit:
    "reachable db \<Longrightarrow> reachable (fst (IncomingPayment_onCredit db now this totalReceived))"
| reach_terminal:
    "reachable db \<Longrightarrow> pt_state pt = Some Completed \<or> pt_state pt = Some Expired
       \<Longrightarrow> reachable (fst (IncomingPayment_patchAndFetchById db i pt excluded))"
| reach_other:
    "reachable db \<Longrightarrow> pt_state pt = None \<Longrightarrow> pt_connectionId pt = None
       \<Longrightarrow> reachable (fst (IncomingPayment_patchAndFetchById db i pt excluded))"

definition connection_invariant :: "IncomingPayment \<Rightarrow> bool" where
  "connection_invariant p =
     ((ip_connectionId p \<noteq> None) = (ip_state p = Pending \<or> ip_state p = Processing))"



text \<open>Every row of the table satisfies the invariant.\<close>

definition table_invariant :: "incomingPayments \<Rightarrow> bool" where
  "table_invariant db = (\<forall>i p. db i = Some p \<longrightarrow> connection_invariant p)"

section \<open>Wallet addresses (open\_payments/wallet\_address/model.ts)\<close>

type_synonym walletAddresses = "string \<rightharpoonup> WalletAddress"

text \<open>
  \<open>WalletAddress.query().patchAndFetchById(id, {processAt}).whereRaw('?? <= ?',
  ['totalEventsAmount', bound]).withGraphFetched('asset')\<close>: the stored row is updated
  when its column \<open>totalEventsAmount\<close> is at most the bound; otherwise nothing is
  updated and the query yields \<open>undefined\<close>.
\<close>

definition WalletAddress_patchAndFetchById ::
  "walletAddresses \<Rightarrow> string \<Rightarrow> int option \<Rightarrow> int
     \<Rightarrow> walletAddresses \<times> WalletAddress option" where
  "WalletAddress_patchAndFetchById db i processAt bound =
     (case db i of
        None \<Rightarrow> (db, None)
      | Some row \<Rightarrow>
          if wa_totalEventsAmount row \<le> bound
          then (let row' = row\<lparr>wa_processAt := processAt\<rparr>
                in (db(i \<mapsto> row'), Some row'))
          else (db, None))"

text \<open>
  The instance query \<open>this.$query().patch({processAt})\<close>: the row with the id of
  \<open>this\<close> is updated if it exists, and the patched field is set on \<open>this\<close> too.
\<close>

definition WalletAddress_patch ::
  "walletAddresses \<Rightarrow> WalletAddress \<Rightarrow> int option \<Rightarrow> walletAddresses \<times> WalletAddress" where
  "WalletAddress_patch db this processAt =
     ((case db (wa_id this) of
         None \<Rightarrow> db
       | Some row \<Rightarrow> db(wa_id this \<mapsto> row\<lparr>wa_processAt := processAt\<rparr>)),
      this\<lparr>wa_processAt := processAt\<rparr>)"

text \<open>
  \<open>onCredit({totalReceived, withdrawalThrottleDelay})\<close> on the in-memory object
  \<open>this\<close>; \<open>withdrawalThrottleDelay\<close> may be \<open>undefined\<close>.
\<close>

definition WalletAddress_onCredit ::
  "walletAddresses \<Rightarrow> int \<Rightarrow> WalletAddress \<Rightarrow> int \<Rightarrow> int option
     \<Rightarrow> walletAddresses \<times> WalletAddress" where
  "WalletAddress_onCredit db now this totalReceived withdrawalThrottleDelay =
     (let (db', walletAddress) =
        (case asset_withdrawalThreshold (wa_asset this) of
           None \<Rightarrow> (db, None)
         | Some withdrawalThreshold \<Rightarrow>
             WalletAddress_patchAndFetchById db (wa_id this) (Some now)
               (totalReceived - withdrawalThreshold))
      in (case walletAddress of
            Some w \<Rightarrow> (db', w)
          | None \<Rightarrow>
              (case withdrawalThrottleDelay of
                 Some delay \<Rightarrow>
                   if wa_processAt this = None
                   then WalletAddress_patch db' this (Some (now + delay))
                   else (db', this)
               | None \<Rightarrow> (db', this))))"



text \<open>
  The condition of the first query of \<open>WalletAddress.onCredit\<close>: the asset of \<open>this\<close>
  has a withdrawal threshold and the stored \<open>totalEventsAmount\<close> is at most
  \<open>totalReceived - withdrawalThreshold\<close>.
\<close>

definition withdrawalThresholdReached :: "WalletAddress \<Rightarrow> WalletAddress \<Rightarrow> int \<Rightarrow> bool" where
  "withdrawalThresholdReached this row totalReceived =
     (case asset_withdrawalThreshold (wa_asset this) of
        None \<Rightarrow> False
      | Some withdrawalThreshold \<Rightarrow>
          wa_totalEventsAmount row \<le> totalReceived - withdrawalThreshold)"

section \<open>The receiver resolver (open\_payments/receiver/service.ts)\<close>

text \<open>
  A call of a collaborator either throws or returns. The collaborators of the service
  (the wallet-address, incoming-payment, connection and grant services, the Open Payments
  client and the \<open>Receiver\<close> model) are its dependencies \<open>deps\<close>; they are parameters
  here. The grant cache is the state \<open>'g\<close> of the grant service, and every call of
  the Open Payments client is recorded, so that ``the client was not called'' can be
  stated.
\<close>

datatype 'a outcome = Throws string | Returns 'a

record GrantOptions =
  go_authServer :: string
  go_accessType :: string
  go_accessActions :: "string list"

text \<open>
  The fields of a cached \<open>Grant\<close> the resolver reads: \<open>authServer\<close> (the url of the
  related auth server, if known), \<open>accessToken\<close> and the getter \<open>expired\<close>.
\<close>

record Grant =
  g_authServer :: "string option"
  g_accessToken :: string
  g_managementUrl :: string
  g_expired :: bool

record AccessToken =
  at_value :: string
  at_manage :: string
  at_expires_in :: "nat option"

datatype GrantResponse = PendingGrant | NonPendingGrant AccessToken

record OpenPaymentsWalletAddress =
  opwa_id :: string
  opwa_authServer :: string

datatype OpenPaymentsIncomingPayment =
  LocalIncomingPayment IncomingPayment WalletAddress string
| RemoteIncomingPayment string

datatype client_call =
  WalletAddressGet string
| TokenRotate string string
| GrantRequest string
| IncomingPaymentGet string string
| IlpStreamConnectionGet string

record ('g, 'r) ServiceDependencies =
  openPaymentsUrl :: string
  walletAddressService_getByUrl :: "string \<Rightarrow> WalletAddress option"
  incomingPaymentService_get :: "string \<Rightarrow> string \<Rightarrow> IncomingPayment option"
  incomingPaymentService_getByConnection :: "string \<Rightarrow> IncomingPayment option"
  connectionService_get :: "IncomingPayment \<Rightarrow> string option"
  grantService_get :: "'g \<Rightarrow> GrantOptions \<Rightarrow> Grant option"
  grantService_update :: "'g \<Rightarrow> Grant \<Rightarrow> AccessToken \<Rightarrow> ('g \<times> Grant) outcome"
  grantService_create :: "'g \<Rightarrow> GrantOptions \<Rightarrow> AccessToken \<Rightarrow> ('g \<times> Grant) outcome"
  grant_getManagementUrl :: "Grant \<Rightarrow> string \<Rightarrow> string"
  client_walletAddress_get :: "string \<Rightarrow> OpenPaymentsWalletAddress option outcome"
  client_token_rotate :: "string \<Rightarrow> string \<Rightarrow> AccessToken outcome"
  client_grant_request :: "string \<Rightarrow> GrantResponse outcome"
  client_incomingPayment_get :: "string \<Rightarrow> string \<Rightarrow> string outcome"
  client_ilpStreamConnection_get :: "string \<Rightarrow> string outcome"
  Receiver_fromIncomingPayment :: "OpenPaymentsIncomingPayment \<Rightarrow> 'r outcome"
  Receiver_fromConnection :: "string \<Rightarrow> 'r outcome"

text \<open>The state the service threads: the grant cache and the client calls so far.\<close>

type_synonym 'g rstate = "'g \<times> client_call list"

text \<open>
  The two regular expressions. A dot matches any character but a line terminator, so
  \<open>(.){36}$\<close> is: the last 36 characters hold no line terminator.
  \<open>CONNECTION_URL_REGEX = /\/connections\/(.){36}$/\<close> and
  \<open>INCOMING_PAYMENT_URL_REGEX =
  /(?<walletAddressUrl>^(.)+)\/incoming-payments\/(?<id>(.){36}$)/\<close>.
\<close>

definition lineTerminator :: "char \<Rightarrow> bool" where
  "lineTerminator c = (c = CHR 0x0A \<or> c = CHR 0x0D)"

definition dots :: "string \<Rightarrow> bool" where
  "dots s = (\<forall>c \<in> set s. \<not> lineTerminator c)"

definition matchesConnectionUrl :: "string \<Rightarrow> bool" where
  "matchesConnectionUrl url =
     (let n = length url in
      49 \<le> n \<and> take 13 (drop (n - 49) url) = ''/connections/'' \<and> dots (drop (n - 36) url))"

definition parseIncomingPaymentUrl :: "string \<Rightarrow> (string \<times> string) option" where
  "parseIncomingPaymentUrl url =
     (let n = length url in
      if 56 \<le> n \<and> take 19 (drop (n - 55) url) = ''/incoming-payments/''
           \<and> dots (take (n - 55) url) \<and> dots (drop (n - 36) url)
      then Some (drop (n - 36) url, take (n - 55) url)
      else None)"

text \<open>
  \<open>getIncomingPaymentGrant\<close>. The rotation is awaited inside \<open>try\<close>, so what it throws
  is caught; the update of the grant is returned without \<open>await\<close>, so what it throws
  reaches the caller, as does what the wallet-address lookup and the grant request throw.
\<close>

definition getIncomingPaymentGrant ::
  "('g, 'r) ServiceDependencies \<Rightarrow> 'g rstate \<Rightarrow> string \<Rightarrow> 'g rstate \<times> Grant option outcome" where
  "getIncomingPaymentGrant deps st walletAddressUrl =
     (let (grants, calls) = st;
          calls1 = calls @ [WalletAddressGet walletAddressUrl]
      in case client_walletAddress_get deps walletAddressUrl of
           Throws e \<Rightarrow> ((grants, calls1), Throws e)
         | Returns None \<Rightarrow> ((grants, calls1), Returns None)
         | Returns (Some walletAddress) \<Rightarrow>
             (let grantOptions =
                    \<lparr>go_authServer = opwa_authServer walletAddress,
                     go_accessType = ''incoming-payment'',
                     go_accessActions = [''read-all'']\<rparr>
              in case grantService_get deps grants grantOptions of
                   Some existingGrant \<Rightarrow>
                     if g_expired existingGrant then
                       (case g_authServer existingGrant of
                          None \<Rightarrow> ((grants, calls1), Returns None)
                        | Some authServerUrl \<Rightarrow>
                            (let url = grant_getManagementUrl deps existingGrant authServerUrl;
                                 calls2 = calls1 @ [TokenRotate url (g_accessToken existingGrant)]
                             in case client_token_rotate deps url (g_accessToken existingGrant) of
                                  Throws err \<Rightarrow> ((grants, calls2), Returns None)
                                | Returns rotatedToken \<Rightarrow>
                                    (case grantService_update deps grants existingGrant rotatedToken of
                                       Throws e \<Rightarrow> ((grants, calls2), Throws e)
                                     | Returns (grants', grant) \<Rightarrow>
                                         ((grants', calls2), Returns (Some grant)))))
                     else ((grants, calls1), Returns (Some existingGrant))
                 | None \<Rightarrow>
                     (let calls2 = calls1 @ [GrantRequest (opwa_authServer walletAddress)]
                      in case client_grant_request deps (opwa_authServer walletAddress) of
                           Throws e \<Rightarrow> ((grants, calls2), Throws e)
                         | Returns PendingGrant \<Rightarrow> ((grants, calls2), Returns None)
                         | Returns (NonPendingGrant token) \<Rightarrow>
                             (case grantService_create deps grants grantOptions token of
                                Throws err \<Rightarrow> ((grants, calls2), Returns None)
                              | Returns (grants', grant) \<Rightarrow>
                                  ((grants', calls2), Returns (Some grant))))))"

definition getLocalIncomingPayment ::
  "('g, 'r) ServiceDependencies \<Rightarrow> string \<Rightarrow> WalletAddress \<Rightarrow> OpenPaymentsIncomingPayment option" where
  "getLocalIncomingPayment deps i walletAddress =
     (case incomingPaymentService_get deps i (wa_id walletAddress) of
        None \<Rightarrow> None
      | Some incomingPayment \<Rightarrow>
          (case connectionService_get deps incomingPayment of
             None \<Rightarrow> None
           | Some connection \<Rightarrow>
               Some (LocalIncomingPayment incomingPayment walletAddress connection)))"

text \<open>
  \<open>getIncomingPayment\<close>: the whole body is inside \<open>try\<close>, and the \<open>catch\<close> logs and
  returns \<open>undefined\<close>.
\<close>

definition getIncomingPayment ::
  "('g, 'r) ServiceDependencies \<Rightarrow> 'g rstate \<Rightarrow> string
     \<Rightarrow> 'g rstate \<times> OpenPaymentsIncomingPayment option" where
  "getIncomingPayment deps st url =
     (case parseIncomingPaymentUrl url of
        None \<Rightarrow> (st, None)
      | Some (i, walletAddressUrl) \<Rightarrow>
          (case walletAddressService_getByUrl deps walletAddressUrl of
             Some walletAddress \<Rightarrow> (st, getLocalIncomingPayment deps i walletAddress)
           | None \<Rightarrow>
               (case getIncomingPaymentGrant deps st walletAddressUrl of
                  (st', Throws e) \<Rightarrow> (st', None)
                | (st', Returns None) \<Rightarrow> (st', None)
                | ((grants, calls), Returns (Some grant)) \<Rightarrow>
                    (let calls' = calls @ [IncomingPaymentGet url (g_accessToken grant)]
                     in case client_incomingPayment_get deps url (g_accessToken grant) of
                          Throws e \<Rightarrow> ((grants, calls'), None)
                        | Returns payment \<Rightarrow>
                            ((grants, calls'), Some (RemoteIncomingPayment payment))))))"

definition getLocalConnection :: "('g, 'r) ServiceDependencies \<Rightarrow> string \<Rightarrow> string option" where
  "getLocalConnection deps url =
     (case incomingPaymentService_getByConnection deps (drop (length url - 36) url) of
        None \<Rightarrow> None
      | Some incomingPayment \<Rightarrow> connectionService_get deps incomingPayment)"

definition getConnection ::
  "('g, 'r) ServiceDependencies \<Rightarrow> 'g rstate \<Rightarrow> string \<Rightarrow> 'g rstate \<times> string option" where
  "getConnection deps st url =
     (if take (length (openPaymentsUrl deps @ ''/connections/'')) url
           = openPaymentsUrl deps @ ''/connections/''
      then (st, getLocalConnection deps url)
      else (let (grants, calls) = st; calls' = calls @ [IlpStreamConnectionGet url]
            in case client_ilpStreamConnection_get deps url of
                 Throws e \<Rightarrow> ((grants, calls'), None)
               | Returns connection \<Rightarrow> ((grants, calls'), Some connection)))"

text \<open>
  \<open>get(url) = getReceiver(deps, url)\<close>. \<open>Returns None\<close> is \<open>undefined\<close>; the two
  \<open>Receiver\<close> constructors are called outside any \<open>try\<close>, so what they throw is thrown.
\<close>

definition getReceiver ::
  "('g, 'r) ServiceDependencies \<Rightarrow> 'g rstate \<Rightarrow> string \<Rightarrow> 'g rstate \<times> 'r option outcome" where
  "getReceiver deps st url =
     (if matchesConnectionUrl url then
        (case getConnection deps st url of
           (st', None) \<Rightarrow> (st', Returns None)
         | (st', Some connection) \<Rightarrow>
             (case Receiver_fromConnection deps connection of
                Throws e \<Rightarrow> (st', Throws e)
              | Returns r \<Rightarrow> (st', Returns (Some r))))
      else
        (case getIncomingPayment deps st url of
           (st', None) \<Rightarrow> (st', Returns None)
         | (st', Some incomingPayment) \<Rightarrow>
             (case Receiver_fromIncomingPayment deps incomingPayment of
                Throws e \<Rightarrow> (st', Throws e)
              | Returns r \<Rightarrow> (st', Returns (Some r)))))"



section \<open>Quotes: expiry (quote/service.test.ts)\<close>

text \<open>
  Modelled from the spec: the expiry of a created quote, which quote/service.ts (not
  among the sources) computes. ``Expiry = min(creation + configured quote lifespan,
  receiver.expiresAt if any)''. Dates are milliseconds since the epoch.
\<close>

definition calculateExpiry :: "int \<Rightarrow> int \<Rightarrow> int option \<Rightarrow> int" where
  "calculateExpiry createdAt quoteLifespan receiverExpiresAt =
     (case receiverExpiresAt of
        None \<Rightarrow> createdAt + quoteLifespan
      | Some expiresAt \<Rightarrow> min (createdAt + quoteLifespan) expiresAt)"

text \<open>
  The value the test ``sets expiry date to \$description'' expects of a quote whose
  receiver is an incoming payment that expires at \<open>expiryDate\<close>:
  \<open>maxExpiration.getTime() > expiryDate.getTime() ? expiryDate : maxExpiration\<close>, where
  \<open>maxExpiration = quote.createdAt.getTime() + config.quoteLifespan\<close>.
\<close>

definition expectedExpiresAt :: "int \<Rightarrow> int \<Rightarrow> int \<Rightarrow> int" where
  "expectedExpiresAt createdAt quoteLifespan expiryDate =
     (let maxExpiration = createdAt + quoteLifespan
      in if maxExpiration > expiryDate then expiryDate else maxExpiration)"

section \<open>Funding an outgoing payment (payment/outgoing/model.ts)\<close>

text \<open>
  The enum \<open>OutgoingPaymentState\<close> of model.ts (its members under the names of their
  values, since \<open>Completed\<close> is a state of incoming payments too) and the fields of
  \<open>OutgoingPayment\<close> that funding reads; \<open>debitAmount\<close> is the quote's.
\<close>

datatype OutgoingPaymentState = FUNDING | SENDING | FAILED | COMPLETED

record OutgoingPayment =
  op_id :: string
  op_state :: OutgoingPaymentState
  op_stateAttempts :: nat
  op_debitAmountValue :: int

text \<open>
  The errors of \<open>fund\<close> (\<open>FundingError\<close> in the tests) and of a ledger deposit. The
  deposit has an \<open>InvalidAmount\<close> of its own, written \<open>TransferInvalidAmount\<close> here.
\<close>

datatype FundingError = InvalidAmount | UnknownPayment | WrongState

datatype TransferError = TransferExists | TransferInvalidAmount | InvalidAccount

text \<open>The ledger: the balance of every account that exists, and the ids of the transfers posted.\<close>

record Ledger =
  balances :: "string \<rightharpoonup> int"
  transfers :: "string set"

text \<open>
  Modelled from the spec: the deposit of the ledger adapter (the accounting service is
  not among the sources). ``createDeposit({id, account, amount}) posts a transfer from the
  asset's settlement pool into account. Idempotent on id. Fails with TransferExists,
  InvalidAmount (non-positive), InvalidAccount.''
\<close>

definition createDeposit :: "Ledger \<Rightarrow> string \<Rightarrow> string \<Rightarrow> int \<Rightarrow> TransferError + Ledger" where
  "createDeposit l transferId accountId amount =
     (if transferId \<in> transfers l then Inl TransferExists
      else if amount \<le> 0 then Inl TransferInvalidAmount
      else (case balances l accountId of
              None \<Rightarrow> Inl InvalidAccount
            | Some balance \<Rightarrow>
                Inr (l\<lparr>balances := (balances l)(accountId \<mapsto> balance + amount),
                      transfers := insert transferId (transfers l)\<rparr>)))"

text \<open>The table of outgoing payments together with the ledger.\<close>

record Store =
  st_payments :: "string \<rightharpoonup> OutgoingPayment"
  st_ledger :: Ledger

text \<open>
  Modelled from the spec: \<open>fund({id, amount, transferId})\<close> of the outgoing-payment
  service (payment/outgoing/service.ts is not among the sources). ``Funding to Sending:
  triggered by fund({id, amount, transferId}); fails with WrongState (not Funding),
  InvalidAmount (amount differs from quote.debitAmount), UnknownPayment. Atomic with a
  ledger deposit to the payment's account.'' The account of a payment has the payment's
  id. When the deposit fails nothing is written and the error of the deposit is the
  result.
\<close>

definition fund ::
  "Store \<Rightarrow> string \<Rightarrow> int \<Rightarrow> string
     \<Rightarrow> Store \<times> ((FundingError + TransferError) + OutgoingPayment)" where
  "fund st i amount transferId =
     (case st_payments st i of
        None \<Rightarrow> (st, Inl (Inl UnknownPayment))
      | Some payment \<Rightarrow>
          if op_state payment \<noteq> FUNDING then (st, Inl (Inl WrongState))
          else if amount \<noteq> op_debitAmountValue payment then (st, Inl (Inl InvalidAmount))
          else (case createDeposit (st_ledger st) transferId i amount of
                  Inl e \<Rightarrow> (st, Inl (Inr e))
                | Inr ledger' \<Rightarrow>
                    (let payment' = payment\<lparr>op_state := SENDING\<rparr>
                     in (st\<lparr>st_payments := (st_payments st)(i \<mapsto> payment'), st_ledger := ledger'\<rparr>,
                         Inr payment'))))"

text \<open>
  Modelled from the spec: how payments come to be in the store (the creation of
  payment/outgoing/service.ts is not among the sources). ``Insert the outgoing payment
  with state = Funding''; the payment ``owns a ledger account'', which is new and holds
  nothing. The stores considered are those reached by creations and calls of \<open>fund\<close>.
\<close>

definition insertPayment :: "Store \<Rightarrow> string \<Rightarrow> int \<Rightarrow> Store" where
  "insertPayment st i debitAmountValue =
     st\<lparr>st_payments :=
          (st_payments st)(i \<mapsto> \<lparr>op_id = i, op_state = FUNDING, op_stateAttempts = 0,
                               op_debitAmountValue = debitAmountValue\<rparr>),
        st_ledger := (st_ledger st)\<lparr>balances := (balances (st_ledger st))(i \<mapsto> 0)\<rparr>\<rparr>"

definition emptyStore :: Store where
  "emptyStore = \<lparr>st_payments = Map.empty, st_ledger = \<lparr>balances = Map.empty, transfers = {}\<rparr>\<rparr>"

inductive reachableStore :: "Store \<Rightarrow> bool" where
  store_empty: "reachableStore emptyStore"
| store_create:
    "reachableStore st \<Longrightarrow> st_payments st i = None \<Longrightarrow> balances (st_ledger st) i = None
       \<Longrightarrow> reachableStore (insertPayment st i debitAmountValue)"
| store_fund:
    "reachableStore st \<Longrightarrow> reachableStore (fst (fund st i amount transferId))"

text \<open>A payment that awaits funding has an account, and the account is empty.\<close>

definition funding_invariant :: "Store \<Rightarrow> bool" where
  "funding_invariant st =
     (\<forall>i p. st_payments st i = Some p \<and> op_state p = FUNDING
        \<longrightarrow> balances (st_ledger st) i = Some 0)"

text \<open>
  The set-up of the tests of \<open>fund\<close>: one payment, created from a quote with a debit
  amount of 123.
\<close>

definition createdPayment :: OutgoingPayment where
  "createdPayment =
     \<lparr>op_id = ''op-1'', op_state = FUNDING, op_stateAttempts = 0, op_debitAmountValue = 123\<rparr>"

definition createdStore :: Store where
  "createdStore = insertPayment emptyStore ''op-1'' 123"

text \<open>
  The same store after the test has patched the payment to the state Failed
  (\<open>payment.$query().patch({ state: startState })\<close>).
\<close>

definition failedStore :: Store where
  "failedStore =
     createdStore\<lparr>st_payments :=
       (st_payments createdStore)(''op-1'' \<mapsto>
          (createdPayment\<lparr>op_state := FAILED\<rparr>))\<rparr>"

section \<open>Concrete data for the examples\<close>

text \<open>
  An incoming payment as the service inserts it, the table after the insert, and the
  table after the payment was completed by an update.
\<close>

definition newPayment :: IncomingPayment where
  "newPayment =
     \<lparr>ip_id = ''ip-1'', ip_walletAddressId = ''wa-1'', ip_state = Pending,
      ip_expiresAt = 90000, ip_connectionId = None, ip_processAt = None,
      ip_incomingAmountValue = Some 56, ip_receivedAmountValue = None\<rparr>"

definition insertedTable :: incomingPayments where
  "insertedTable = Map.empty(''ip-1'' \<mapsto> IncomingPayment_beforeInsert ''conn-1'' newPayment)"

definition completedPayment :: IncomingPayment where
  "completedPayment = newPayment\<lparr>ip_state := Completed, ip_connectionId := None\<rparr>"

definition completedTable :: incomingPayments where
  "completedTable =
     fst (IncomingPayment_patchAndFetchById insertedTable ''ip-1''
            (emptyPatch\<lparr>pt_state := Some Completed\<rparr>) [])"

text \<open>Services that know this one payment, and a packet of 100 units sent to it by a peer.\<close>

definition exampleServices :: "unit services" where
  "exampleServices =
     \<lparr>incomingPayments_get = completedTable,
      walletAddresses_get = (\<lambda>_. None),
      peers_getByDestinationAddress = (\<lambda>_. None),
      accounting_createLiquidityAccount = (\<lambda>l _ _. Inr l)\<rparr>"

definition examplePrepare :: ILPContext where
  "examplePrepare =
     \<lparr>ctx_incomingAccount =
        Some (PeerAccount \<lparr>peer_id = ''peer-1'', peer_staticIlpAddress = ''test.peer''\<rparr>),
      ctx_streamDestination = Some ''ip-1'',
      prepare_amount = ''100'',
      prepare_destination = ''test.rafiki.abc''\<rparr>"

text \<open>A wallet address whose asset has a withdrawal threshold of 10.\<close>

definition exampleWalletAddress :: WalletAddress where
  "exampleWalletAddress =
     \<lparr>wa_id = ''wa-1'', wa_url = ''https://wallet.example/alice'',
      wa_asset = \<lparr>asset_code = ''USD'', asset_scale = 2, asset_withdrawalThreshold = Some 10\<rparr>,
      wa_totalEventsAmount = 0, wa_processAt = None, wa_deactivatedAt = None\<rparr>"

text \<open>
  The same wallet address after a first credit has scheduled it for 700, and the table
  that holds it; \<open>exampleWalletAddress\<close> is then a copy read before that credit.
\<close>

definition scheduledWalletAddress :: WalletAddress where
  "scheduledWalletAddress = exampleWalletAddress\<lparr>wa_processAt := Some 700\<rparr>"

definition scheduledWalletAddresses :: walletAddresses where
  "scheduledWalletAddresses = Map.empty(''wa-1'' \<mapsto> scheduledWalletAddress)"

text \<open>
  A resolver whose grant cache is a map from the grant options, whose client finds the
  remote wallet address, and whose token rotation always fails.
\<close>

definition remoteGrantOptions :: GrantOptions where
  "remoteGrantOptions =
     \<lparr>go_authServer = ''https://auth.remote'', go_accessType = ''incoming-payment'',
      go_accessActions = [''read-all'']\<rparr>"

definition expiredGrant :: Grant where
  "expiredGrant =
     \<lparr>g_authServer = Some ''https://auth.remote'', g_accessToken = ''OLD'',
      g_managementUrl = ''https://auth.remote/token/1'', g_expired = True\<rparr>"

definition grantCache :: "GrantOptions \<rightharpoonup> Grant" where
  "grantCache = Map.empty(remoteGrantOptions \<mapsto> expiredGrant)"

definition failingRotationDeps :: "(GrantOptions \<rightharpoonup> Grant, string) ServiceDependencies" where
  "failingRotationDeps =
     \<lparr>openPaymentsUrl = ''https://local'',
      walletAddressService_getByUrl = (\<lambda>_. None),
      incomingPaymentService_get = (\<lambda>_ _. None),
      incomingPaymentService_getByConnection = (\<lambda>_. None),
      connectionService_get = (\<lambda>_. None),
      grantService_get = (\<lambda>grants options. grants options),
      grantService_update = (\<lambda>grants grant token. Throws ''unused''),
      grantService_create = (\<lambda>grants options token. Throws ''unused''),
      grant_getManagementUrl = (\<lambda>grant authServerUrl. g_managementUrl grant),
      client_walletAddress_get =
        (\<lambda>url. Returns (Some \<lparr>opwa_id = url, opwa_authServer = ''https://auth.remote''\<rparr>)),
      client_token_rotate = (\<lambda>_ _. Throws ''rotation failed''),
      client_grant_request = (\<lambda>_. Returns PendingGrant),
      client_incomingPayment_get = (\<lambda>_ _. Throws ''unused''),
      client_ilpStreamConnection_get = (\<lambda>_. Throws ''unused''),
      Receiver_fromIncomingPayment = (\<lambda>_. Throws ''unused''),
      Receiver_fromConnection = (\<lambda>_. Throws ''unused'')\<rparr>"

definition remoteIncomingPaymentUrl :: string where
  "remoteIncomingPaymentUrl = ''w/incoming-payments/0123456789abcdef0123456789abcdef0123''"



section \<open>Properties of incoming payments\<close>

lemma patchAndFetchById_excluded:
  "db i = Some row \<Longrightarrow> ip_state row \<in> set excluded
     \<Longrightarrow> IncomingPayment_patchAndFetchById db i pt excluded = (db, None)"
  by (simp add: IncomingPayment_patchAndFetchById_def)

lemma beforeUpdate_terminal_nulls_connectionId:
  "pt_state pt = Some Completed \<or> pt_state pt = Some Expired
     \<Longrightarrow> ip_connectionId (applyPatch row (IncomingPayment_beforeUpdate pt)) = None"
  by (auto simp: applyPatch_def IncomingPayment_beforeUpdate_def)

lemma beforeInsert_assigns_connectionId:
  "ip_connectionId (IncomingPayment_beforeInsert uuid q) \<noteq> None
   \<and> (ip_connectionId q = None \<or> ip_connectionId q = Some [] \<longrightarrow>
        ip_connectionId (IncomingPayment_beforeInsert uuid q) = Some uuid)
   \<and> (\<forall>c. ip_connectionId q = Some c \<and> c \<noteq> [] \<longrightarrow>
        ip_connectionId (IncomingPayment_beforeInsert uuid q) = Some c)"
  by (simp add: IncomingPayment_beforeInsert_def split: option.splits)

lemma applyPatch_terminal_invariant:
  "pt_state pt = Some Completed \<or> pt_state pt = Some Expired
     \<Longrightarrow> connection_invariant (applyPatch row (IncomingPayment_beforeUpdate pt))"
  by (auto simp: connection_invariant_def applyPatch_def IncomingPayment_beforeUpdate_def)

lemma applyPatch_other_invariant:
  "pt_state pt = None \<Longrightarrow> pt_connectionId pt = None \<Longrightarrow> connection_invariant row
     \<Longrightarrow> connection_invariant (applyPatch row (IncomingPayment_beforeUpdate pt))"
  by (auto simp: connection_invariant_def applyPatch_def IncomingPayment_beforeUpdate_def)

lemma applyPatch_processing_invariant:
  "ip_state row \<notin> set [Expired, Completed] \<Longrightarrow> connection_invariant row
     \<Longrightarrow> connection_invariant
           (applyPatch row (IncomingPayment_beforeUpdate (emptyPatch\<lparr>pt_state := Some Processing\<rparr>)))"
  by (cases "ip_state row")
     (auto simp: connection_invariant_def applyPatch_def IncomingPayment_beforeUpdate_def
        emptyPatch_def)

lemma beforeInsert_invariant:
  "ip_state q = Pending \<Longrightarrow> connection_invariant (IncomingPayment_beforeInsert uuid q)"
  by (auto simp: connection_invariant_def IncomingPayment_beforeInsert_def split: option.splits)

lemma patch_table_invariant:
  assumes "table_invariant db"
    and "\<And>row. db i = Some row \<Longrightarrow> ip_state row \<notin> set excluded
           \<Longrightarrow> connection_invariant (applyPatch row (IncomingPayment_beforeUpdate pt))"
  shows "table_invariant (fst (IncomingPayment_patchAndFetchById db i pt excluded))"
  using assms
  by (auto simp: table_invariant_def IncomingPayment_patchAndFetchById_def Let_def
      split: option.splits)

lemma onCredit_table_invariant:
  assumes "table_invariant db"
  shows "table_invariant (fst (IncomingPayment_onCredit db now this totalReceived))"
proof -
  have completes: "table_invariant (fst (IncomingPayment_patchAndFetchById db (ip_id this)
      (emptyPatch\<lparr>pt_state := Some Completed, pt_processAt := Some (Some (now + 30000))\<rparr>)
      [Expired, Completed]))"
    by (rule patch_table_invariant[OF assms])
       (rule applyPatch_terminal_invariant, simp add: emptyPatch_def)
  have processes: "table_invariant (fst (IncomingPayment_patchAndFetchById db (ip_id this)
      (emptyPatch\<lparr>pt_state := Some Processing\<rparr>) [Expired, Completed]))"
  proof (rule patch_table_invariant[OF assms])
    fix row
    assume "db (ip_id this) = Some row" and "ip_state row \<notin> set [Expired, Completed]"
    moreover from this assms have "connection_invariant row"
      by (simp add: table_invariant_def)
    ultimately show "connection_invariant
        (applyPatch row (IncomingPayment_beforeUpdate (emptyPatch\<lparr>pt_state := Some Processing\<rparr>)))"
      by (intro applyPatch_processing_invariant)
  qed
  show ?thesis
    using completes processes
    by (auto simp: IncomingPayment_onCredit_def split: prod.splits option.splits if_splits)
qed

lemma reachable_table_invariant: "reachable db \<Longrightarrow> table_invariant db"
proof (induction rule: reachable.induct)
  case reach_empty
  show ?case by (simp add: table_invariant_def)
next
  case (reach_insert db p uuid)
  then show ?case
    using beforeInsert_invariant[of p uuid] by (auto simp: table_invariant_def)
next
  case (reach_credit db now this totalReceived)
  then show ?case by (simp add: onCredit_table_invariant)
next
  case (reach_terminal db pt i excluded)
  then show ?case by (intro patch_table_invariant applyPatch_terminal_invariant)
next
  case (reach_other db pt i excluded)
  show ?case
  proof (rule patch_table_invariant[OF reach_other.IH])
    fix row
    assume "db i = Some row"
    with reach_other.IH have "connection_invariant row" by (simp add: table_invariant_def)
    with reach_other.hyps show
      "connection_invariant (applyPatch row (IncomingPayment_beforeUpdate pt))"
      by (intro applyPatch_other_invariant)
  qed
qed

lemma terminal_destination_unreachable:
  assumes "ctx_streamDestination ctx = Some sd" and "sd \<noteq> []"
    and "incomingPayments_get svc sd = Some p"
    and "ip_state p = Completed \<or> ip_state p = Expired"
    and "prepare_amount ctx \<noteq> ''0''"
  shows "getAccountByDestinationAddress svc ledger ctx
           = Inl (UnreachableError ''destination account is disabled'')"
  using assms by (auto simp: getAccountByDestinationAddress_def)

lemma insertedTable_reachable: "reachable insertedTable"
  unfolding insertedTable_def
  using reach_insert[OF reach_empty, of newPayment "''conn-1''"] by (simp add: newPayment_def)

lemma completedTable_reachable: "reachable completedTable"
  unfolding completedTable_def
  by (rule reach_terminal[OF insertedTable_reachable]) (simp add: emptyPatch_def)

lemma completedTable_lookup: "completedTable ''ip-1'' = Some completedPayment"
  by (simp add: completedTable_def insertedTable_def IncomingPayment_patchAndFetchById_def
      IncomingPayment_beforeInsert_def IncomingPayment_beforeUpdate_def applyPatch_def
      emptyPatch_def completedPayment_def newPayment_def Let_def)

lemma insertedTable_lookup:
  "insertedTable ''ip-1'' = Some (newPayment\<lparr>ip_connectionId := Some ''conn-1''\<rparr>)"
  by (simp add: insertedTable_def IncomingPayment_beforeInsert_def newPayment_def)

text \<open>
  Claim C1. In every table reached by inserts, credits and the updates listed above, the
  \<open>connectionId\<close> of a payment is non-null if and only if its state is Pending or
  Processing. \<open>$beforeInsert\<close> assigns the fresh uuid as connection id to a payment that
  comes without one (and keeps a connection id that is given), and \<open>$beforeUpdate\<close>
  nulls the connection id in every update whose patch sets the state to Completed or
  Expired. For a payment in state Completed or Expired, the account middleware rejects a
  prepare whose amount is not \<open>'0'\<close> and whose stream destination is that payment with
  \<open>UnreachableError\<close>. (The prepare comes from an authenticated incoming account: without
  one the middleware throws 401 before it looks at the destination.)
\<close>

theorem incomingPayment_connection_invariant:
  assumes "reachable db" and "db i = Some p"
  shows "((ip_connectionId p \<noteq> None) = (ip_state p = Pending \<or> ip_state p = Processing))
       \<and> (ip_connectionId q = None \<or> ip_connectionId q = Some [] \<longrightarrow>
            ip_connectionId (IncomingPayment_beforeInsert uuid q) = Some uuid)
       \<and> (\<forall>c. ip_connectionId q = Some c \<and> c \<noteq> [] \<longrightarrow>
            ip_connectionId (IncomingPayment_beforeInsert uuid q) = Some c)
       \<and> ip_state (IncomingPayment_beforeInsert uuid q) = ip_state q
       \<and> (pt_state pt = Some Completed \<or> pt_state pt = Some Expired \<longrightarrow>
            ip_connectionId (applyPatch row (IncomingPayment_beforeUpdate pt)) = None)
       \<and> (ip_state p = Completed \<or> ip_state p = Expired \<longrightarrow>
            ctx_incomingAccount ctx \<noteq> None \<longrightarrow>
            ctx_streamDestination ctx = Some i \<longrightarrow> i \<noteq> [] \<longrightarrow>
            incomingPayments_get svc i = Some p \<longrightarrow>
            prepare_amount ctx \<noteq> ''0'' \<longrightarrow>
            account_middleware svc ledger ctx
              = Inl (UnreachableError ''destination account is disabled''))"
proof -
  from assms have "connection_invariant p"
    using reachable_table_invariant by (auto simp: table_invariant_def)
  then have inv: "(ip_connectionId p \<noteq> None) = (ip_state p = Pending \<or> ip_state p = Processing)"
    by (simp add: connection_invariant_def)
  have rejects: "account_middleware svc ledger ctx
        = Inl (UnreachableError ''destination account is disabled'')"
    if "ip_state p = Completed \<or> ip_state p = Expired" "ctx_incomingAccount ctx \<noteq> None"
      "ctx_streamDestination ctx = Some i" "i \<noteq> []" "incomingPayments_get svc i = Some p"
      "prepare_amount ctx \<noteq> ''0''"
  proof -
    have "getAccountByDestinationAddress svc ledger ctx
        = Inl (UnreachableError ''destination account is disabled'')"
      using that by (intro terminal_destination_unreachable)
    with that(2) show ?thesis by (auto simp: account_middleware_def)
  qed
  have keeps: "ip_state (IncomingPayment_beforeInsert uuid q) = ip_state q"
    by (simp add: IncomingPayment_beforeInsert_def)
  show ?thesis
    using inv rejects keeps beforeInsert_assigns_connectionId[of uuid q]
      beforeUpdate_terminal_nulls_connectionId[of pt row]
    by blast
qed

theorem incomingPayment_connection_invariant_witness:
  "reachable completedTable \<and> completedTable ''ip-1'' = Some completedPayment
   \<and> ip_state completedPayment = Completed \<and> ip_connectionId completedPayment = None
   \<and> ip_connectionId newPayment = None
   \<and> ip_connectionId (IncomingPayment_beforeInsert ''conn-1'' newPayment) = Some ''conn-1''
   \<and> reachable insertedTable
   \<and> insertedTable ''ip-1'' = Some (newPayment\<lparr>ip_connectionId := Some ''conn-1''\<rparr>)
   \<and> ip_state (newPayment\<lparr>ip_connectionId := Some ''conn-1''\<rparr>) = Pending
   \<and> account_middleware exampleServices () examplePrepare
       = Inl (UnreachableError ''destination account is disabled'')"
  using incomingPayment_connection_invariant[OF completedTable_reachable completedTable_lookup,
      of newPayment "''conn-1''" emptyPatch newPayment examplePrepare exampleServices "()"]
    incomingPayment_connection_invariant[OF insertedTable_reachable insertedTable_lookup,
      of newPayment "''conn-1''" emptyPatch newPayment examplePrepare exampleServices "()"]
    completedTable_reachable completedTable_lookup insertedTable_reachable insertedTable_lookup
  by (simp add: completedPayment_def exampleServices_def examplePrepare_def newPayment_def)

text \<open>
  Claim C9. When the stored payment is in state Completed or Expired, \<open>onCredit\<close>
  leaves the table as it is and returns the object it was called on: both patch queries
  exclude rows in state Expired or Completed, so a late credit neither moves the payment
  back to Processing nor completes it again.
\<close>

theorem IncomingPayment_onCredit_terminal_unchanged:
  assumes "db (ip_id this) = Some row"
    and "ip_state row = Completed \<or> ip_state row = Expired"
  shows "IncomingPayment_onCredit db now this totalReceived = (db, this)
       \<and> IncomingPayment_patchAndFetchById db (ip_id this)
            (emptyPatch\<lparr>pt_state := Some Completed,
                        pt_processAt := Some (Some (now + 30000))\<rparr>)
            [Expired, Completed] = (db, None)
       \<and> IncomingPayment_patchAndFetchById db (ip_id this)
            (emptyPatch\<lparr>pt_state := Some Processing\<rparr>) [Expired, Completed] = (db, None)"
proof -
  have excluded: "ip_state row \<in> set [Expired, Completed]"
    using assms(2) by auto
  have none: "IncomingPayment_patchAndFetchById db (ip_id this) pt [Expired, Completed] = (db, None)"
    for pt
    using assms(1) excluded by (rule patchAndFetchById_excluded)
  then show ?thesis by (simp add: IncomingPayment_onCredit_def)
qed

theorem IncomingPayment_onCredit_terminal_unchanged_witness:
  "completedTable (ip_id completedPayment) = Some completedPayment
   \<and> ip_state completedPayment = Completed
   \<and> IncomingPayment_onCredit completedTable 1000 completedPayment 56
       = (completedTable, completedPayment)"
  using IncomingPayment_onCredit_terminal_unchanged[of completedTable completedPayment
      completedPayment 1000 56] completedTable_lookup
  by (simp add: completedPayment_def newPayment_def)

section \<open>Properties of wallet addresses\<close>

text \<open>
  The paths of \<open>WalletAddress.onCredit\<close> when the row of \<open>this\<close> is stored. If the
  asset has a withdrawal threshold and the stored \<open>totalEventsAmount\<close> is at most
  \<open>totalReceived - withdrawalThreshold\<close>, \<open>processAt\<close> is set to the current time.
  Otherwise, when \<open>withdrawalThrottleDelay\<close> is defined and \<open>processAt\<close> of \<open>this\<close> is
  unset, the stored \<open>processAt\<close> is set to now plus the delay, whatever it held; and when
  \<open>processAt\<close> of \<open>this\<close> is set (or there is no delay) nothing is written.
\<close>

lemma WalletAddress_onCredit_paths:
  assumes "db (wa_id this) = Some row"
  shows "(withdrawalThresholdReached this row totalReceived \<longrightarrow>
            WalletAddress_onCredit db now this totalReceived delay
              = (db(wa_id this \<mapsto> row\<lparr>wa_processAt := Some now\<rparr>),
                 row\<lparr>wa_processAt := Some now\<rparr>))
       \<and> (\<not> withdrawalThresholdReached this row totalReceived \<longrightarrow>
            (\<forall>d. delay = Some d \<and> wa_processAt this = None \<longrightarrow>
               WalletAddress_onCredit db now this totalReceived delay
                 = (db(wa_id this \<mapsto> row\<lparr>wa_processAt := Some (now + d)\<rparr>),
                    this\<lparr>wa_processAt := Some (now + d)\<rparr>))
          \<and> (delay = None \<or> wa_processAt this \<noteq> None \<longrightarrow>
               WalletAddress_onCredit db now this totalReceived delay = (db, this)))"
proof (cases "asset_withdrawalThreshold (wa_asset this)")
  case None
  then show ?thesis
    using assms
    by (auto simp: withdrawalThresholdReached_def WalletAddress_onCredit_def
        WalletAddress_patch_def split: option.splits)
next
  case (Some th)
  show ?thesis
  proof (cases "wa_totalEventsAmount row \<le> totalReceived - th")
    case True
    then show ?thesis
      using Some assms
      by (simp add: withdrawalThresholdReached_def WalletAddress_onCredit_def
          WalletAddress_patchAndFetchById_def Let_def)
  next
    case False
    then show ?thesis
      using Some assms
      by (auto simp: withdrawalThresholdReached_def WalletAddress_onCredit_def
          WalletAddress_patchAndFetchById_def WalletAddress_patch_def split: option.splits)
  qed
qed

text \<open>
  Claim C10, at the input where the code departs from it. The claim says that the
  throttled path never postpones a \<open>processAt\<close> that is already scheduled. The guard of
  that path reads \<open>processAt\<close> of the object \<open>onCredit\<close> is called on, not the stored
  column (which the query of the threshold path does read). Here the stored wallet
  address is scheduled for 700 and \<open>onCredit\<close> runs at 1000, with a delay of 500 and
  the threshold not reached, on a copy read before the schedule was written: the stored
  \<open>processAt\<close> becomes 1500. On a copy that carries the schedule nothing is written.
\<close>

theorem WalletAddress_onCredit_postpones_scheduled:
  "scheduledWalletAddresses (wa_id exampleWalletAddress) = Some scheduledWalletAddress
   \<and> wa_processAt scheduledWalletAddress = Some 700
   \<and> wa_processAt exampleWalletAddress = None
   \<and> \<not> withdrawalThresholdReached exampleWalletAddress scheduledWalletAddress 5
   \<and> fst (WalletAddress_onCredit scheduledWalletAddresses 1000 exampleWalletAddress 5 (Some 500))
         ''wa-1''
       = Some (scheduledWalletAddress\<lparr>wa_processAt := Some 1500\<rparr>)
   \<and> WalletAddress_onCredit scheduledWalletAddresses 1000 scheduledWalletAddress 5 (Some 500)
       = (scheduledWalletAddresses, scheduledWalletAddress)"
  by (simp add: scheduledWalletAddresses_def scheduledWalletAddress_def
      exampleWalletAddress_def withdrawalThresholdReached_def WalletAddress_onCredit_def
      WalletAddress_patchAndFetchById_def WalletAddress_patch_def)

section \<open>Properties of the receiver resolver\<close>

lemma incomingPaymentUrl_not_connectionUrl:
  assumes "parseIncomingPaymentUrl url = Some (i, w)"
  shows "\<not> matchesConnectionUrl url"
proof
  assume m: "matchesConnectionUrl url"
  let ?n = "length url"
  from assms have n: "56 \<le> ?n"
    and ip: "take 19 (drop (?n - 55) url) = ''/incoming-payments/''"
    by (auto simp: parseIncomingPaymentUrl_def Let_def split: if_splits)
  from m have c: "take 13 (drop (?n - 49) url) = ''/connections/''"
    by (simp add: matchesConnectionUrl_def Let_def)
  have "drop (?n - 49) url = drop 6 (drop (?n - 55) url)"
    using n by simp
  then have "take 13 (drop (?n - 49) url) = drop 6 (take 19 (drop (?n - 55) url))"
    by (simp add: drop_take)
  with ip c show False by simp
qed

lemma remoteIncomingPaymentUrl_parse:
  "parseIncomingPaymentUrl remoteIncomingPaymentUrl
     = Some (''0123456789abcdef0123456789abcdef0123'', ''w'')"
  by (simp add: parseIncomingPaymentUrl_def remoteIncomingPaymentUrl_def dots_def
      lineTerminator_def)

text \<open>
  Claim C8, as amended. The url is an incoming-payment url of a wallet address that is
  not local; the client finds the wallet address; the grant cache holds a grant for
  (authServer, incoming-payment, read-all) that is expired and whose auth server is
  known; the rotation of its token throws. Then \<open>get(url)\<close> returns \<open>undefined\<close>, the
  grant cache is unchanged (the expired grant stays in it), and the only client calls
  made are the wallet-address lookup and the failed rotation: no grant is requested.
\<close>

theorem getReceiver_rotation_failure:
  assumes parse: "parseIncomingPaymentUrl url = Some (i, walletAddressUrl)"
    and remote: "walletAddressService_getByUrl deps walletAddressUrl = None"
    and found: "client_walletAddress_get deps walletAddressUrl = Returns (Some walletAddress)"
    and cached: "grantService_get deps grants
        \<lparr>go_authServer = opwa_authServer walletAddress, go_accessType = ''incoming-payment'',
         go_accessActions = [''read-all'']\<rparr> = Some existingGrant"
    and expired: "g_expired existingGrant"
    and auth: "g_authServer existingGrant = Some authServerUrl"
    and rotate: "client_token_rotate deps
        (grant_getManagementUrl deps existingGrant authServerUrl)
        (g_accessToken existingGrant) = Throws err"
  shows "getReceiver deps (grants, calls) url =
           ((grants,
             calls @ [WalletAddressGet walletAddressUrl,
                      TokenRotate (grant_getManagementUrl deps existingGrant authServerUrl)
                        (g_accessToken existingGrant)]),
            Returns None)"
proof -
  have nc: "\<not> matchesConnectionUrl url"
    using parse by (rule incomingPaymentUrl_not_connectionUrl)
  have "getIncomingPaymentGrant deps (grants, calls) walletAddressUrl =
       ((grants,
         calls @ [WalletAddressGet walletAddressUrl,
                  TokenRotate (grant_getManagementUrl deps existingGrant authServerUrl)
                    (g_accessToken existingGrant)]),
        Returns None)"
    using found cached expired auth rotate
    by (simp add: getIncomingPaymentGrant_def Let_def)
  then have "getIncomingPayment deps (grants, calls) url =
       ((grants,
         calls @ [WalletAddressGet walletAddressUrl,
                  TokenRotate (grant_getManagementUrl deps existingGrant authServerUrl)
                    (g_accessToken existingGrant)]),
        None)"
    using parse remote by (simp add: getIncomingPayment_def)
  then show ?thesis
    using nc by (simp add: getReceiver_def)
qed

theorem getReceiver_rotation_failure_witness:
  "getReceiver failingRotationDeps (grantCache, []) remoteIncomingPaymentUrl =
     ((grantCache,
       [WalletAddressGet ''w'', TokenRotate ''https://auth.remote/token/1'' ''OLD'']),
      Returns None)"
  using getReceiver_rotation_failure[of remoteIncomingPaymentUrl
      "''0123456789abcdef0123456789abcdef0123''" "''w''" failingRotationDeps
      "\<lparr>opwa_id = ''w'', opwa_authServer = ''https://auth.remote''\<rparr>"
      grantCache expiredGrant "''https://auth.remote''" "''rotation failed''" "[]"]
    remoteIncomingPaymentUrl_parse
  by (simp add: failingRotationDeps_def grantCache_def remoteGrantOptions_def expiredGrant_def)

text \<open>
  The claim as stated says the expired grant is evicted. It is not: after the failed
  rotation the cache still answers the same lookup with the expired grant.
\<close>

lemma failingRotation_result:
  "getReceiver failingRotationDeps (grantCache, []) remoteIncomingPaymentUrl =
     ((grantCache,
       [WalletAddressGet ''w'', TokenRotate ''https://auth.remote/token/1'' ''OLD'']),
      Returns None)"
  using remoteIncomingPaymentUrl_parse incomingPaymentUrl_not_connectionUrl[OF remoteIncomingPaymentUrl_parse]
  by (simp add: getReceiver_def getIncomingPayment_def getIncomingPaymentGrant_def
      failingRotationDeps_def grantCache_def remoteGrantOptions_def expiredGrant_def Let_def)

theorem rotation_failure_grant_not_evicted:
  "snd (getReceiver failingRotationDeps (grantCache, []) remoteIncomingPaymentUrl) = Returns None
   \<and> grantService_get failingRotationDeps
       (fst (fst (getReceiver failingRotationDeps (grantCache, []) remoteIncomingPaymentUrl)))
       remoteGrantOptions = Some expiredGrant
   \<and> g_expired expiredGrant"
  by (simp add: failingRotation_result)
     (simp add: failingRotationDeps_def grantCache_def expiredGrant_def)



section \<open>Properties of quotes\<close>

text \<open>
  Claim C7. The expiry of a created quote is the minimum of its creation time plus the
  quote lifespan and the expiry of the receiver, when the receiver has one: the expiry
  of the incoming payment when that is earlier than creation plus lifespan, creation plus
  lifespan otherwise. This is the value the test of the quote service expects.
\<close>

theorem quote_expiry:
  "calculateExpiry createdAt quoteLifespan None = createdAt + quoteLifespan
   \<and> calculateExpiry createdAt quoteLifespan (Some expiresAt)
       = min (createdAt + quoteLifespan) expiresAt
   \<and> calculateExpiry createdAt quoteLifespan (Some expiresAt)
       = expectedExpiresAt createdAt quoteLifespan expiresAt
   \<and> (expiresAt < createdAt + quoteLifespan \<longrightarrow>
        calculateExpiry createdAt quoteLifespan (Some expiresAt) = expiresAt)
   \<and> (\<not> expiresAt < createdAt + quoteLifespan \<longrightarrow>
        calculateExpiry createdAt quoteLifespan (Some expiresAt) = createdAt + quoteLifespan)"
  by (auto simp: calculateExpiry_def expectedExpiresAt_def Let_def)

theorem quote_expiry_witness:
  "calculateExpiry 1000 300000 (Some 181000) = 181000
   \<and> calculateExpiry 1000 300000 (Some 421000) = 301000
   \<and> calculateExpiry 1000 300000 None = 301000"
  using quote_expiry[of 1000 300000 181000] quote_expiry[of 1000 300000 421000]
  by simp

section \<open>Properties of funding\<close>

lemma insertPayment_invariant:
  assumes "funding_invariant st" and "st_payments st i = None"
  shows "funding_invariant (insertPayment st i d)"
  using assms by (auto simp: funding_invariant_def insertPayment_def)

lemma fund_invariant:
  assumes "funding_invariant st"
  shows "funding_invariant (fst (fund st i amount transferId))"
proof (cases "fst (fund st i amount transferId) = st")
  case True
  with assms show ?thesis by simp
next
  case False
  then obtain p l where p: "st_payments st i = Some p"
    and l: "createDeposit (st_ledger st) transferId i amount = Inr l"
    and f: "fst (fund st i amount transferId)
              = st\<lparr>st_payments := (st_payments st)(i \<mapsto> p\<lparr>op_state := SENDING\<rparr>),
                   st_ledger := l\<rparr>"
    by (auto simp: fund_def Let_def split: option.splits if_splits sum.splits)
  from l have other: "balances l j = balances (st_ledger st) j" if "j \<noteq> i" for j
    using that by (auto simp: createDeposit_def split: if_splits option.splits)
  show ?thesis
    unfolding f using assms other by (auto simp: funding_invariant_def)
qed

lemma reachableStore_invariant: "reachableStore st \<Longrightarrow> funding_invariant st"
proof (induction rule: reachableStore.induct)
  case store_empty
  show ?case by (simp add: funding_invariant_def emptyStore_def)
next
  case (store_create st i debitAmountValue)
  then show ?case by (simp add: insertPayment_invariant)
next
  case (store_fund st i amount transferId)
  then show ?case by (simp add: fund_invariant)
qed

lemma createdStore_reachable: "reachableStore createdStore"
  unfolding createdStore_def
  by (rule store_create[OF store_empty]) (simp_all add: emptyStore_def)

text \<open>
  Claim C4. \<open>fund({id, amount, transferId})\<close> fails with UnknownPayment when no payment
  has that id, with WrongState when the payment is in a state other than Funding, and
  with InvalidAmount when it is in Funding and the amount differs from the debit amount
  of the quote; in each case nothing is written, so the state is unchanged, and the
  account of a payment in Funding holds 0. When the payment is in Funding and the amount
  is the debit amount, the state becomes Sending exactly when the deposit of the amount
  to the payment's account is posted: if the deposit succeeds, the payment is in Sending
  and its balance has grown by the amount (to exactly the amount, from 0, in a store
  reached by creations and fundings, where the deposit succeeds for a new transfer id and
  a positive amount); if the deposit fails, nothing is written.
\<close>

theorem fund_transitions:
  "(st_payments st i = None \<longrightarrow> fund st i amount transferId = (st, Inl (Inl UnknownPayment)))
   \<and> (\<forall>p. st_payments st i = Some p \<and> op_state p \<noteq> FUNDING \<longrightarrow>
          fund st i amount transferId = (st, Inl (Inl WrongState)))
   \<and> (\<forall>p. st_payments st i = Some p \<and> op_state p = FUNDING
            \<and> amount \<noteq> op_debitAmountValue p \<longrightarrow>
          fund st i amount transferId = (st, Inl (Inl InvalidAmount))
          \<and> (reachableStore st \<longrightarrow> balances (st_ledger st) i = Some 0))
   \<and> (\<forall>p e. st_payments st i = Some p \<and> op_state p = FUNDING
            \<and> amount = op_debitAmountValue p
            \<and> createDeposit (st_ledger st) transferId i amount = Inl e \<longrightarrow>
          fund st i amount transferId = (st, Inl (Inr e)))
   \<and> (\<forall>p l balance. st_payments st i = Some p \<and> op_state p = FUNDING
            \<and> amount = op_debitAmountValue p
            \<and> balances (st_ledger st) i = Some balance
            \<and> createDeposit (st_ledger st) transferId i amount = Inr l \<longrightarrow>
          fund st i amount transferId
            = (st\<lparr>st_payments := (st_payments st)(i \<mapsto> p\<lparr>op_state := SENDING\<rparr>),
                  st_ledger := l\<rparr>,
               Inr (p\<lparr>op_state := SENDING\<rparr>))
          \<and> balances l i = Some (balance + amount)
          \<and> (\<forall>j. j \<noteq> i \<longrightarrow> balances l j = balances (st_ledger st) j))
   \<and> (\<forall>p. reachableStore st \<and> st_payments st i = Some p \<and> op_state p = FUNDING
            \<and> amount = op_debitAmountValue p
            \<and> transferId \<notin> transfers (st_ledger st) \<and> 0 < amount \<longrightarrow>
          fund st i amount transferId
            = (st\<lparr>st_payments := (st_payments st)(i \<mapsto> p\<lparr>op_state := SENDING\<rparr>),
                  st_ledger :=
                    (st_ledger st)\<lparr>balances := (balances (st_ledger st))(i \<mapsto> amount),
                                   transfers := insert transferId (transfers (st_ledger st))\<rparr>\<rparr>,
               Inr (p\<lparr>op_state := SENDING\<rparr>)))"
proof -
  have unknown: "fund st i amount transferId = (st, Inl (Inl UnknownPayment))"
    if "st_payments st i = None"
    using that by (simp add: fund_def)
  have wrong: "fund st i amount transferId = (st, Inl (Inl WrongState))"
    if "st_payments st i = Some p" "op_state p \<noteq> FUNDING" for p
    using that by (simp add: fund_def)
  have invalid: "fund st i amount transferId = (st, Inl (Inl InvalidAmount))"
    if "st_payments st i = Some p" "op_state p = FUNDING" "amount \<noteq> op_debitAmountValue p" for p
    using that by (simp add: fund_def)
  have empty: "balances (st_ledger st) i = Some 0"
    if "reachableStore st" "st_payments st i = Some p" "op_state p = FUNDING" for p
    using reachableStore_invariant[OF that(1)] that(2,3) by (auto simp: funding_invariant_def)
  have failed: "fund st i amount transferId = (st, Inl (Inr e))"
    if "st_payments st i = Some p" "op_state p = FUNDING" "amount = op_debitAmountValue p"
      "createDeposit (st_ledger st) transferId i amount = Inl e" for p e
    using that by (simp add: fund_def)
  have posted: "fund st i amount transferId
            = (st\<lparr>st_payments := (st_payments st)(i \<mapsto> p\<lparr>op_state := SENDING\<rparr>),
                  st_ledger := l\<rparr>,
               Inr (p\<lparr>op_state := SENDING\<rparr>))
          \<and> balances l i = Some (balance + amount)
          \<and> (\<forall>j. j \<noteq> i \<longrightarrow> balances l j = balances (st_ledger st) j)"
    if "st_payments st i = Some p" "op_state p = FUNDING" "amount = op_debitAmountValue p"
      "balances (st_ledger st) i = Some balance"
      "createDeposit (st_ledger st) transferId i amount = Inr l" for p l balance
  proof -
    from that(4,5) have "balances l i = Some (balance + amount)"
      and "\<forall>j. j \<noteq> i \<longrightarrow> balances l j = balances (st_ledger st) j"
      by (auto simp: createDeposit_def split: if_splits)
    moreover have "fund st i amount transferId
            = (st\<lparr>st_payments := (st_payments st)(i \<mapsto> p\<lparr>op_state := SENDING\<rparr>),
                  st_ledger := l\<rparr>,
               Inr (p\<lparr>op_state := SENDING\<rparr>))"
      using that(1,2,3,5) by (simp add: fund_def Let_def)
    ultimately show ?thesis by simp
  qed
  have funded: "fund st i amount transferId
            = (st\<lparr>st_payments := (st_payments st)(i \<mapsto> p\<lparr>op_state := SENDING\<rparr>),
                  st_ledger :=
                    (st_ledger st)\<lparr>balances := (balances (st_ledger st))(i \<mapsto> amount),
                                   transfers := insert transferId (transfers (st_ledger st))\<rparr>\<rparr>,
               Inr (p\<lparr>op_state := SENDING\<rparr>))"
    if "reachableStore st" "st_payments st i = Some p" "op_state p = FUNDING"
      "amount = op_debitAmountValue p" "transferId \<notin> transfers (st_ledger st)" "0 < amount" for p
  proof -
    have "balances (st_ledger st) i = Some 0"
      using empty[OF that(1,2,3)] .
    then have "createDeposit (st_ledger st) transferId i amount
        = Inr ((st_ledger st)\<lparr>balances := (balances (st_ledger st))(i \<mapsto> amount),
                               transfers := insert transferId (transfers (st_ledger st))\<rparr>)"
      using that(5,6) by (simp add: createDeposit_def)
    then show ?thesis
      using that(2,3,4) by (simp add: fund_def Let_def)
  qed
  show ?thesis
    using unknown wrong invalid empty failed posted funded by blast
qed

lemma createdStore_lookup:
  "st_payments createdStore ''op-1'' = Some createdPayment"
  "st_payments createdStore ''op-2'' = None"
  "transfers (st_ledger createdStore) = {}"
  by (simp_all add: createdStore_def insertPayment_def emptyStore_def createdPayment_def)

lemma failedStore_lookup:
  "st_payments failedStore ''op-1'' = Some (createdPayment\<lparr>op_state := FAILED\<rparr>)"
  by (simp add: failedStore_def)

theorem fund_transitions_witness:
  "reachableStore createdStore
   \<and> fund createdStore ''op-2'' 123 ''t-1'' = (createdStore, Inl (Inl UnknownPayment))
   \<and> fund createdStore ''op-1'' 122 ''t-1'' = (createdStore, Inl (Inl InvalidAmount))
   \<and> balances (st_ledger createdStore) ''op-1'' = Some 0
   \<and> snd (fund createdStore ''op-1'' 123 ''t-1'') = Inr (createdPayment\<lparr>op_state := SENDING\<rparr>)
   \<and> balances (st_ledger (fst (fund createdStore ''op-1'' 123 ''t-1''))) ''op-1'' = Some 123
   \<and> fund failedStore ''op-1'' 123 ''t-1'' = (failedStore, Inl (Inl WrongState))"
proof -
  have unknown: "fund createdStore ''op-2'' 123 ''t-1'' = (createdStore, Inl (Inl UnknownPayment))"
    using fund_transitions[of createdStore "''op-2''" 123 "''t-1''", THEN conjunct1]
      createdStore_lookup(2)
    by simp
  have invalid: "fund createdStore ''op-1'' 122 ''t-1'' = (createdStore, Inl (Inl InvalidAmount))
      \<and> balances (st_ledger createdStore) ''op-1'' = Some 0"
    using fund_transitions[of createdStore "''op-1''" 122 "''t-1''", THEN conjunct2,
        THEN conjunct2, THEN conjunct1, THEN spec, of createdPayment]
      createdStore_lookup(1) createdStore_reachable
    by (simp add: createdPayment_def)
  have funded: "fund createdStore ''op-1'' 123 ''t-1''
      = (createdStore\<lparr>st_payments :=
             (st_payments createdStore)(''op-1'' \<mapsto> createdPayment\<lparr>op_state := SENDING\<rparr>),
           st_ledger :=
             (st_ledger createdStore)\<lparr>balances :=
                 (balances (st_ledger createdStore))(''op-1'' \<mapsto> 123),
               transfers := insert ''t-1'' (transfers (st_ledger createdStore))\<rparr>\<rparr>,
         Inr (createdPayment\<lparr>op_state := SENDING\<rparr>))"
    using fund_transitions[of createdStore "''op-1''" 123 "''t-1''", THEN conjunct2,
        THEN conjunct2, THEN conjunct2, THEN conjunct2, THEN conjunct2, THEN spec,
        of createdPayment]
      createdStore_lookup createdStore_reachable
    by (simp add: createdPayment_def)
  have wrong: "fund failedStore ''op-1'' 123 ''t-1'' = (failedStore, Inl (Inl WrongState))"
    using fund_transitions[of failedStore "''op-1''" 123 "''t-1''", THEN conjunct2,
        THEN conjunct1, THEN spec, of "createdPayment\<lparr>op_state := FAILED\<rparr>"]
      failedStore_lookup
    by simp
  show ?thesis
    using unknown invalid wrong createdStore_reachable
    by (simp add: funded)
qed


end
